theory Spec2Isabelle
  imports Main "HOL-Library.Word"
begin

section \<open>Machine integers and contract violations\<close>

text \<open>
  \<^verbatim>\<open>std::size_t\<close> is taken as the 64-bit unsigned integer of an LP64 platform:
  addition wraps around modulo \<open>2 ^ 64\<close>, comparison is unsigned.
\<close>

type_synonym size_t = "64 word"

text \<open>
  \<^verbatim>\<open>cppcmb_assert(msg, cond)\<close> expands to \<^verbatim>\<open>assert(((void)msg, (cond)))\<close>. A failing
  assertion aborts the program; it is the contract violation of the specification and is
  modelled as the error value carrying the message of the assertion that failed.
  \<^verbatim>\<open>std::get\<close> on the inactive alternative of a variant throws
  \<^verbatim>\<open>std::bad_variant_access\<close>.
\<close>

datatype error = AssertionFailed string | BadVariantAccess

section \<open>The reader\<close>

text \<open>
  \<^verbatim>\<open>reader<Src>\<close> holds a pointer to a source that it never writes and an unsigned
  cursor. The source is any type with \<^verbatim>\<open>operator[](std::size_t)\<close> and
  \<^verbatim>\<open>std::size\<close>; it is modelled as a list of elements, the pointer as the list
  itself (the source is not changed while a reader is in use).
  \<open>std_size\<close> is what \<^verbatim>\<open>std::size(source())\<close> returns: the length as a
  \<^verbatim>\<open>std::size_t\<close>. Every source that fits in memory is shorter than \<open>2 ^ 64\<close>, where
  \<open>std_size\<close> is the length itself (lemma \<open>unat_std_size\<close>).
\<close>

record 'a reader =
  m_Source :: "'a list"
  m_Cursor :: size_t

definition std_size :: "'a list \<Rightarrow> size_t" where
  "std_size src = of_nat (length src)"

text \<open>The constructor \<^verbatim>\<open>reader(Src const& src)\<close>: the cursor starts at \<^verbatim>\<open>0U\<close>.\<close>

definition reader :: "'a list \<Rightarrow> 'a reader" where
  "reader src = \<lparr>m_Source = src, m_Cursor = 0\<rparr>"

definition source :: "'a reader \<Rightarrow> 'a list" where
  "source r = m_Source r"

definition cursor :: "'a reader \<Rightarrow> size_t" where
  "cursor r = m_Cursor r"

definition is_end :: "'a reader \<Rightarrow> bool" where
  "is_end r = (cursor r = std_size (source r))"

text \<open>
  \<^verbatim>\<open>seek(idx)\<close> asserts \<^verbatim>\<open>idx < std::size(source())\<close> and then stores \<^verbatim>\<open>idx\<close> in
  the cursor.
\<close>

definition seek :: "'a reader \<Rightarrow> size_t \<Rightarrow> error + 'a reader" where
  "seek r idx =
     (if idx < std_size (source r) then Inr (r\<lparr>m_Cursor := idx\<rparr>)
      else Inl (AssertionFailed ''seek() argument must be in the bounds of source!''))"

text \<open>
  \<^verbatim>\<open>next()\<close> asserts \<^verbatim>\<open>!is_end()\<close> and then calls \<^verbatim>\<open>seek(cursor() + 1)\<close>; the
  addition is the wrapping one of \<^verbatim>\<open>std::size_t\<close>. (\<open>next\<close> is a keyword of the proof
  language, hence the name \<open>reader_next\<close>.)
\<close>

definition reader_next :: "'a reader \<Rightarrow> error + 'a reader" where
  "reader_next r =
     (if \<not> is_end r then seek r (cursor r + 1)
      else Inl (AssertionFailed ''next() must not be called when is_end() is true!''))"

text \<open>
  The readers a program can hold: the fields are private, so a reader is what the
  constructor returns, changed only by calls of \<^verbatim>\<open>seek\<close> and \<^verbatim>\<open>next\<close> that return.
\<close>

inductive reachable :: "'a reader \<Rightarrow> bool" where
  reachable_reader: "reachable (reader src)"
| reachable_seek: "reachable r \<Longrightarrow> seek r idx = Inr r' \<Longrightarrow> reachable r'"
| reachable_next: "reachable r \<Longrightarrow> reader_next r = Inr r' \<Longrightarrow> reachable r'"

section \<open>Success, failure and result\<close>

text \<open>
  \<^verbatim>\<open>success<T>\<close> stores the value and the remaining count given to its constructor.
  \<^verbatim>\<open>value()\<close> has four overloads, one for each way the object is held
  (\<^verbatim>\<open>&\<close>, \<^verbatim>\<open>const&\<close>, \<^verbatim>\<open>&&\<close>, \<^verbatim>\<open>const&&\<close>); the first two return
  \<^verbatim>\<open>m_Value\<close>, the last two \<^verbatim>\<open>std::move(m_Value)\<close>. A move changes who owns the
  value, not the value that the caller receives. (\<open>value\<close> is a command of the theory
  language, hence the four names below.)
\<close>

record 'a success =
  m_Value :: 'a
  m_Remaining :: size_t

definition success :: "'a \<Rightarrow> size_t \<Rightarrow> 'a success" where
  "success val rem = \<lparr>m_Value = val, m_Remaining = rem\<rparr>"

definition value_lref :: "'a success \<Rightarrow> 'a" where
  "value_lref s = m_Value s"

definition value_cref :: "'a success \<Rightarrow> 'a" where
  "value_cref s = m_Value s"

definition value_rref :: "'a success \<Rightarrow> 'a" where
  "value_rref s = m_Value s"

definition value_crref :: "'a success \<Rightarrow> 'a" where
  "value_crref s = m_Value s"

definition remaining :: "'a success \<Rightarrow> size_t" where
  "remaining s = m_Remaining s"

record failure =
  m_Furthest :: size_t

definition failure :: "size_t \<Rightarrow> failure" where
  "failure furth = \<lparr>m_Furthest = furth\<rparr>"

definition furthest :: "failure \<Rightarrow> size_t" where
  "furthest f = m_Furthest f"

text \<open>
  \<^verbatim>\<open>result<T>\<close> holds a \<^verbatim>\<open>std::variant<success_type, failure_type>\<close>. Its
  constructor forwards its argument to the variant, which then holds the alternative of
  the argument's type: a \<^verbatim>\<open>success<T>\<close> or a \<^verbatim>\<open>failure\<close>. (A variant left
  without a value by an assignment that throws is outside this model: exceptions thrown
  by the copy or move of the payload are not modelled.)
\<close>

datatype 'a variant = Holds_success "'a success" | Holds_failure failure

record 'a result =
  m_Data :: "'a variant"

definition result_from_success :: "'a success \<Rightarrow> 'a result" where
  "result_from_success val = \<lparr>m_Data = Holds_success val\<rparr>"

definition result_from_failure :: "failure \<Rightarrow> 'a result" where
  "result_from_failure val = \<lparr>m_Data = Holds_failure val\<rparr>"

definition is_success :: "'a result \<Rightarrow> bool" where
  "is_success res = (case m_Data res of Holds_success _ \<Rightarrow> True | Holds_failure _ \<Rightarrow> False)"

definition is_failure :: "'a result \<Rightarrow> bool" where
  "is_failure res = (case m_Data res of Holds_success _ \<Rightarrow> False | Holds_failure _ \<Rightarrow> True)"

text \<open>
  The accessors \<^verbatim>\<open>success()\<close> and \<^verbatim>\<open>failure()\<close> are \<^verbatim>\<open>std::get\<close> on the variant,
  which throws when the other alternative is held. Their four overloads differ in
  ownership only.
\<close>

definition get_success :: "'a result \<Rightarrow> error + 'a success" where
  "get_success res = (case m_Data res of Holds_success s \<Rightarrow> Inr s | Holds_failure _ \<Rightarrow> Inl BadVariantAccess)"

definition get_failure :: "'a result \<Rightarrow> error + failure" where
  "get_failure res = (case m_Data res of Holds_success _ \<Rightarrow> Inl BadVariantAccess | Holds_failure f \<Rightarrow> Inr f)"

section \<open>Combinator identities\<close>

text \<open>
  \<^verbatim>\<open>detail::combinator_base\<close> has one field with a default member initialiser,
  \<^verbatim>\<open>std::size_t m_ID = s_ID_Counter++\<close>, and no constructor of its own. The process-wide
  counter \<^verbatim>\<open>s_ID_Counter\<close> starts at 0; it is the state passed through the
  constructors below.
  \<^item> Default initialisation runs the initialiser: the object takes the counter's value
    and the counter is incremented (wrapping, as \<^verbatim>\<open>std::size_t\<close> does).
  \<^item> The implicit copy and move constructors copy \<^verbatim>\<open>m_ID\<close> from their argument; the
    initialiser does not run and the counter is untouched.
\<close>

record combinator_base =
  m_ID :: size_t

definition s_ID_Counter_init :: size_t where
  "s_ID_Counter_init = 0"

definition combinator_base :: "size_t \<Rightarrow> combinator_base \<times> size_t" where
  "combinator_base s_ID_Counter = (\<lparr>m_ID = s_ID_Counter\<rparr>, s_ID_Counter + 1)"

definition combinator_base_copy :: "combinator_base \<Rightarrow> size_t \<Rightarrow> combinator_base \<times> size_t" where
  "combinator_base_copy other s_ID_Counter = (\<lparr>m_ID = m_ID other\<rparr>, s_ID_Counter)"

definition parser_id :: "combinator_base \<Rightarrow> size_t" where
  "parser_id c = m_ID c"

text \<open>\<open>n\<close> combinators default-constructed one after the other, in order of construction.\<close>

fun construct_n :: "nat \<Rightarrow> size_t \<Rightarrow> combinator_base list \<times> size_t" where
  "construct_n 0 s_ID_Counter = ([], s_ID_Counter)"
| "construct_n (Suc n) s_ID_Counter =
     (case combinator_base s_ID_Counter of
        (c, s_ID_Counter') \<Rightarrow>
          (case construct_n n s_ID_Counter' of
             (cs, s_ID_Counter'') \<Rightarrow> (c # cs, s_ID_Counter'')))"

section \<open>The action combinator\<close>

text \<open>
  \<^verbatim>\<open>action<Cmb, Fn>\<close> derives from \<^verbatim>\<open>combinator<action<Cmb, Fn>>\<close>, hence from
  \<^verbatim>\<open>combinator_base\<close>, and stores the wrapped combinator and the function. Its
  constructor default-initialises the base (a fresh identity) and then copies or moves
  its two arguments into the fields, so that the stored combinator keeps the identity of
  the one it was made from.
\<close>

record ('c, 'f) action = combinator_base +
  m_Parser :: 'c
  m_Fn :: 'f

definition action :: "'c \<Rightarrow> 'f \<Rightarrow> size_t \<Rightarrow> ('c, 'f) action \<times> size_t" where
  "action cmb fn s_ID_Counter =
     (case combinator_base s_ID_Counter of
        (base, s_ID_Counter') \<Rightarrow>
          (\<lparr>m_ID = m_ID base, m_Parser = cmb, m_Fn = fn\<rparr>, s_ID_Counter'))"

text \<open>Modelled from the spec: the invocation of an action on a reader. The source has the
  storage and the constructor of \<^verbatim>\<open>action\<close> only (its class body ends with the comment
  \<^verbatim>\<open>XXX(LPeter1997): Implement\<close>), and no combinator in it has an operation that
  parses. Following section 4.4 of the specification: invoke the wrapped combinator on
  the reader; on \<open>Success(value, remaining)\<close> apply the transform function to the value
  and return \<open>Success(fn(value), remaining)\<close>; on \<open>Failure(furthest)\<close> return that
  failure unchanged. How the wrapped combinator is invoked is the parameter \<open>invoke\<close>.
  The second component of the outcome lists the arguments on which the transform
  function was called, in the order of the calls.
\<close>

definition action_invoke ::
  "('c \<Rightarrow> 'e reader \<Rightarrow> 'a result) \<Rightarrow> ('c, 'a \<Rightarrow> 'b) action \<Rightarrow> 'e reader \<Rightarrow> 'b result \<times> 'a list" where
  "action_invoke invoke a r =
     (case m_Data (invoke (m_Parser a) r) of
        Holds_success s \<Rightarrow>
          (result_from_success (success (m_Fn a (value_rref s)) (remaining s)), [value_rref s])
      | Holds_failure f \<Rightarrow> (result_from_failure f, []))"

section \<open>Properties of the reader\<close>

lemma unat_std_size: "length src < 2 ^ 64 \<Longrightarrow> unat (std_size src) = length src"
  by (simp add: std_size_def unat_of_nat)

lemma std_size_eq_0_iff: "length src < 2 ^ 64 \<Longrightarrow> std_size src = 0 \<longleftrightarrow> src = []"
  using unat_std_size [of src] by (auto simp: std_size_def)

lemma seek_in_bounds:
  "idx < std_size (source r) \<Longrightarrow> seek r idx = Inr (r\<lparr>m_Cursor := idx\<rparr>)"
  by (simp add: seek_def)

lemma seek_out_of_bounds:
  "std_size (source r) \<le> idx \<Longrightarrow>
   seek r idx = Inl (AssertionFailed ''seek() argument must be in the bounds of source!'')"
  by (simp add: seek_def not_less)

lemma seek_returns_iff: "(\<exists>r'. seek r idx = Inr r') \<longleftrightarrow> idx < std_size (source r)"
  by (simp add: seek_def)

lemma seek_cursor: "seek r idx = Inr r' \<Longrightarrow> cursor r' = idx \<and> source r' = source r"
  by (auto simp: seek_def cursor_def source_def split: if_splits)

lemma seek_result_in_bounds: "seek r idx = Inr r' \<Longrightarrow> cursor r' < std_size (source r')"
  by (auto simp: seek_def cursor_def source_def split: if_splits)

lemma reader_next_eq_seek: "\<not> is_end r \<Longrightarrow> reader_next r = seek r (cursor r + 1)"
  by (simp add: reader_next_def)

lemma reader_next_at_end:
  "is_end r \<Longrightarrow>
   reader_next r = Inl (AssertionFailed ''next() must not be called when is_end() is true!'')"
  by (simp add: reader_next_def)

lemma reader_next_returns_iff:
  "(\<exists>r'. reader_next r = Inr r') \<longleftrightarrow> \<not> is_end r \<and> cursor r + 1 < std_size (source r)"
  by (simp add: reader_next_def seek_def)

text \<open>
  On the last element of any source the reader is not at the end, and \<^verbatim>\<open>next\<close> is
  stopped by the assertion of \<^verbatim>\<open>seek\<close>.
\<close>

lemma reader_next_on_last_element:
  assumes "cursor r + 1 = std_size (source r)"
  shows "\<not> is_end r"
    and "reader_next r =
           Inl (AssertionFailed ''seek() argument must be in the bounds of source!'')"
proof -
  from assms have "cursor r \<noteq> std_size (source r)"
    by (metis add_cancel_right_right zero_neq_one)
  then show "\<not> is_end r"
    by (simp add: is_end_def)
  then show "reader_next r =
           Inl (AssertionFailed ''seek() argument must be in the bounds of source!'')"
    using assms by (simp add: reader_next_def seek_def)
qed

lemma reader_next_cursor:
  "reader_next r = Inr r' \<Longrightarrow> cursor r' = cursor r + 1 \<and> source r' = source r"
  by (auto simp: reader_next_def dest: seek_cursor split: if_splits)

text \<open>
  The invariant of the readers a program can hold: the cursor is 0, as the constructor
  leaves it, or an index that passed the assertion of \<^verbatim>\<open>seek\<close>.
\<close>

lemma reachable_cursor:
  "reachable r \<Longrightarrow> cursor r = 0 \<or> cursor r < std_size (source r)"
proof (induction rule: reachable.induct)
  case (reachable_reader src)
  show ?case by (simp add: reader_def cursor_def)
next
  case (reachable_seek r idx r')
  from reachable_seek.hyps(2) show ?case by (simp add: seek_result_in_bounds)
next
  case (reachable_next r r')
  from reachable_next.hyps(2) have "seek r (cursor r + 1) = Inr r'"
    by (simp add: reader_next_def split: if_splits)
  then show ?case by (simp add: seek_result_in_bounds)
qed

lemma reachable_cursor_le: "reachable r \<Longrightarrow> cursor r \<le> std_size (source r)"
  using reachable_cursor [of r] by auto

lemma reachable_end_only_fresh_empty:
  assumes "reachable r" and "is_end r"
  shows "std_size (source r) = 0 \<and> r = reader (source r)"
proof -
  from assms(2) have eq: "cursor r = std_size (source r)"
    by (simp add: is_end_def)
  with reachable_cursor [OF assms(1)] have zero: "cursor r = 0"
    by auto
  with eq have "std_size (source r) = 0"
    by simp
  moreover from zero have "r = reader (source r)"
    by (cases r) (simp add: reader_def source_def cursor_def)
  ultimately show ?thesis by simp
qed

text \<open>
  The scenario of the specification on the source \<open>abc\<close>: two calls of \<^verbatim>\<open>next\<close>
  return and the reader stands on the last element; the third is stopped by the
  assertion of \<^verbatim>\<open>seek\<close>, before the cursor would be 3.
\<close>

lemma scenario_abc:
  "reader_next (reader ''abc'') = Inr \<lparr>m_Source = ''abc'', m_Cursor = 1\<rparr>"
  "reader_next \<lparr>m_Source = ''abc'', m_Cursor = 1\<rparr> = Inr \<lparr>m_Source = ''abc'', m_Cursor = 2\<rparr>"
  "\<not> is_end \<lparr>m_Source = ''abc'', m_Cursor = 2\<rparr>"
  "reader_next \<lparr>m_Source = ''abc'', m_Cursor = 2\<rparr> =
     Inl (AssertionFailed ''seek() argument must be in the bounds of source!'')"
  by (simp_all add: reader_next_def is_end_def seek_def reader_def source_def
      cursor_def std_size_def)

text \<open>
  C1. For every index \<open>idx\<close> with \<open>0 \<le> idx \<le> L\<close>, \<^verbatim>\<open>seek(idx)\<close> does not violate the
  assertion of \<^verbatim>\<open>seek\<close> and leaves \<open>cursor() = idx\<close>; for \<open>idx > L\<close> it is a contract
  violation. The code at \<open>idx = L\<close>: on the source \<open>abc\<close>, of length 3, \<^verbatim>\<open>seek(3)\<close>
  fails the assertion \<^verbatim>\<open>idx < std::size(source())\<close>. (Below \<open>L\<close> the call returns with
  the cursor at \<open>idx\<close>, and from \<open>L\<close> on it fails: \<open>seek_in_bounds\<close>, \<open>seek_cursor\<close>,
  \<open>seek_out_of_bounds\<close>.)
\<close>

theorem seek_to_length_fails_assertion:
  "std_size ''abc'' = 3 \<and>
   seek (reader ''abc'') 3 =
     Inl (AssertionFailed ''seek() argument must be in the bounds of source!'')"
  by (simp add: seek_def reader_def source_def std_size_def)

text \<open>
  C2. For every reader with \<open>\<not> is_end()\<close>, \<^verbatim>\<open>next()\<close> is not a contract violation and
  moves the cursor by one, as \<^verbatim>\<open>seek(cursor() + 1)\<close> does; at \<open>is_end()\<close> it is a
  contract violation. The code on the last element: the fresh reader over the source
  \<open>a\<close> is not at the end, it passes the assertion of \<^verbatim>\<open>next\<close>, and the call
  \<^verbatim>\<open>seek(1)\<close> inside fails the assertion of \<^verbatim>\<open>seek\<close>.
\<close>

theorem next_on_last_element_fails_assertion:
  "\<not> is_end (reader ''a'') \<and>
   reader_next (reader ''a'') =
     Inl (AssertionFailed ''seek() argument must be in the bounds of source!'')"
  by (simp add: reader_next_def is_end_def seek_def reader_def source_def cursor_def
      std_size_def)

text \<open>
  C9. A freshly constructed reader over a source of length \<open>L\<close> has \<open>cursor() = 0\<close> and
  \<open>is_end() = (L = 0)\<close>; for every reader, \<open>is_end()\<close> holds exactly when the cursor
  equals the length of the source. \<open>L\<close> is \<open>std_size src\<close>, the length as
  \<^verbatim>\<open>std::size\<close> returns it.
\<close>

theorem fresh_reader_cursor_and_end:
  "cursor (reader src) = 0 \<and>
   is_end (reader src) = (std_size src = 0) \<and>
   is_end r = (cursor r = std_size (source r))"
  by (auto simp: reader_def cursor_def is_end_def source_def)

text \<open>
  C10. After a call of \<^verbatim>\<open>seek(idx)\<close> that satisfies the assertion of \<^verbatim>\<open>seek\<close>,
  \<open>is_end()\<close> is false: \<^verbatim>\<open>seek\<close> never places the reader at the end of the input. A
  reader that a program can hold is at the end only if it is the freshly constructed
  reader over an empty source. (The first part needs no hypothesis on the source: over
  an empty source no call of \<^verbatim>\<open>seek\<close> satisfies the assertion.)
\<close>

theorem seek_never_positions_at_end:
  "(seek r idx = Inr r' \<longrightarrow> \<not> is_end r') \<and>
   (reachable q \<and> is_end q \<longrightarrow> std_size (source q) = 0 \<and> q = reader (source q))"
proof -
  have "\<not> is_end r'" if "seek r idx = Inr r'"
  proof -
    from that have "cursor r' < std_size (source r')"
      by (rule seek_result_in_bounds)
    then show ?thesis
      by (simp add: is_end_def)
  qed
  moreover have "std_size (source q) = 0 \<and> q = reader (source q)" if "reachable q \<and> is_end q"
    using that reachable_end_only_fresh_empty [of q] by simp
  ultimately show ?thesis
    by blast
qed

theorem seek_never_positions_at_end_witness:
  "seek (reader ''abc'') 2 = Inr \<lparr>m_Source = ''abc'', m_Cursor = 2\<rparr> \<and>
   \<not> is_end \<lparr>m_Source = ''abc'', m_Cursor = 2\<rparr> \<and>
   reachable (reader ([] :: char list)) \<and> is_end (reader ([] :: char list)) \<and>
   std_size (source (reader ([] :: char list))) = 0"
proof -
  have s: "seek (reader ''abc'') 2 = Inr \<lparr>m_Source = ''abc'', m_Cursor = 2\<rparr>"
    by (simp add: seek_def reader_def source_def std_size_def)
  have "is_end (reader ([] :: char list))"
    by (simp add: is_end_def reader_def cursor_def source_def std_size_def)
  with reachable_reader [of "[] :: char list"]
  have e: "reachable (reader ([] :: char list)) \<and> is_end (reader ([] :: char list))"
    by simp
  from seek_never_positions_at_end
    [of "reader ''abc''" 2 "\<lparr>m_Source = ''abc'', m_Cursor = 2\<rparr>" "reader ([] :: char list)"]
  show ?thesis using s e by simp
qed

section \<open>Properties of success, failure and result\<close>

text \<open>
  C6. For every value \<open>v\<close> and count \<open>r\<close>, the success object constructed from
  \<open>(v, r)\<close> gives \<open>v\<close> back through \<^verbatim>\<open>value()\<close> in each of its four access forms
  and \<open>r\<close> through \<^verbatim>\<open>remaining()\<close>.
\<close>

theorem success_value_and_remaining:
  "value_lref (success v r) = v \<and> value_cref (success v r) = v \<and>
   value_rref (success v r) = v \<and> value_crref (success v r) = v \<and>
   remaining (success v r) = r"
  by (simp add: success_def value_lref_def value_cref_def value_rref_def value_crref_def
      remaining_def)

text \<open>
  C7. For every position \<open>f\<close>, the failure object constructed from \<open>f\<close> gives \<open>f\<close>
  back through \<^verbatim>\<open>furthest()\<close>.
\<close>

theorem failure_furthest_is_argument: "furthest (failure f) = f"
  by (simp add: failure_def furthest_def)

lemma result_constructed: "(\<exists>s. res = result_from_success s) \<or> (\<exists>f. res = result_from_failure f)"
proof (cases res)
  case (fields d)
  then show ?thesis
    by (cases d) (simp_all add: result_from_success_def result_from_failure_def)
qed

lemma get_success_iff: "(\<exists>s. get_success res = Inr s) \<longleftrightarrow> is_success res"
  by (cases "m_Data res") (simp_all add: get_success_def is_success_def)

lemma get_failure_iff: "(\<exists>f. get_failure res = Inr f) \<longleftrightarrow> is_failure res"
  by (cases "m_Data res") (simp_all add: get_failure_def is_failure_def)

text \<open>
  C5. For every result, constructed from a success or from a failure, exactly one of
  \<^verbatim>\<open>is_success()\<close> and \<^verbatim>\<open>is_failure()\<close> is true: the two always differ. The result
  constructed from a success is a success and the one constructed from a failure is a
  failure.
\<close>

theorem result_is_success_xor_is_failure:
  "is_success res \<noteq> is_failure res \<and>
   is_success (result_from_success s) \<and> \<not> is_failure (result_from_success s) \<and>
   is_failure (result_from_failure f :: 'a result) \<and>
   \<not> is_success (result_from_failure f :: 'a result)"
proof -
  have "is_success res \<noteq> is_failure res"
    by (cases "m_Data res") (simp_all add: is_success_def is_failure_def)
  then show ?thesis
    by (simp add: is_success_def is_failure_def result_from_success_def
        result_from_failure_def)
qed

section \<open>Properties of the combinator identities\<close>

lemma map_upt_Suc_shift: "map f [0..<Suc n] = f 0 # map (\<lambda>i. f (Suc i)) [0..<n]"
  by (simp add: map_upt_Suc del: upt_Suc)

text \<open>The \<open>i\<close>-th of \<open>n\<close> default-constructed combinators has the counter's value plus \<open>i\<close>.\<close>

lemma construct_n_eq:
  "construct_n n c = (map (\<lambda>i. \<lparr>m_ID = c + of_nat i\<rparr>) [0..<n], c + of_nat n)"
proof (induction n arbitrary: c)
  case 0
  show ?case by simp
next
  case (Suc n)
  have "construct_n (Suc n) c =
        (\<lparr>m_ID = c\<rparr> # map (\<lambda>i. \<lparr>m_ID = c + 1 + of_nat i\<rparr>) [0..<n], c + 1 + of_nat n)"
    by (simp add: combinator_base_def Suc)
  also have "\<dots> = (map (\<lambda>i. \<lparr>m_ID = c + of_nat i\<rparr>) [0..<Suc n], c + of_nat (Suc n))"
    unfolding map_upt_Suc_shift by (simp add: add.assoc)
  finally show ?case .
qed

lemma construct_n_parser_id:
  "i < n \<Longrightarrow> parser_id (fst (construct_n n c) ! i) = c + of_nat i"
  by (simp add: construct_n_eq parser_id_def)

lemma counter_no_wrap_less:
  fixes c :: size_t
  assumes "unat c + n \<le> 2 ^ 64" and "i < j" and "j < n"
  shows "c + of_nat i < c + of_nat j"
proof -
  have "unat (c + of_nat i) = unat c + i"
    using assms by (simp add: unat_word_ariths unat_of_nat)
  moreover have "unat (c + of_nat j) = unat c + j"
    using assms by (simp add: unat_word_ariths unat_of_nat)
  ultimately show ?thesis
    using assms(2) by (simp add: word_less_nat_alt)
qed

text \<open>
  Two combinators default-constructed directly one after the other: the second identity
  is the first plus one modulo \<open>2 ^ 64\<close>, so the two differ, and the second is the
  greater one unless the first is \<open>2 ^ 64 - 1\<close>.
\<close>

lemma consecutive_default_constructed:
  "parser_id (fst (combinator_base (snd (combinator_base c)))) =
     parser_id (fst (combinator_base c)) + 1"
  "parser_id (fst (combinator_base (snd (combinator_base c)))) \<noteq>
     parser_id (fst (combinator_base c))"
  by (simp_all add: combinator_base_def parser_id_def)

text \<open>
  The counter reaches \<open>2 ^ 64 - 1\<close> after that many default constructions from the start
  of the process.
\<close>

lemma counter_reaches_max: "snd (construct_n (2 ^ 64 - 1) s_ID_Counter_init) = - 1"
  by (simp add: construct_n_eq s_ID_Counter_init_def)

text \<open>
  The wrapped combinator stored in an action has the identity of the combinator it was
  built from; the action itself takes a fresh one.
\<close>

lemma action_identities:
  "parser_id (m_Parser (fst (action cmb fn c))) = parser_id cmb"
  "m_ID (fst (action cmb fn c)) = c"
  "snd (action cmb fn c) = c + 1"
  by (simp_all add: action_def combinator_base_def)

lemma combinator_base_copy_keeps_identity:
  "parser_id (fst (combinator_base_copy other s_ID_Counter)) = parser_id other"
  "snd (combinator_base_copy other s_ID_Counter) = s_ID_Counter"
  by (simp_all add: combinator_base_copy_def parser_id_def)

text \<open>
  C8, as stated: every two combinators constructed one after the other have distinct
  identities, the later one the greater. It fails for a copy: the first combinator of the
  process and the copy constructed from it right after have the same identity 0. It
  fails at the wrap-around of the counter: the combinator constructed at counter
  \<open>2 ^ 64 - 1\<close> has that identity and the next one has identity 0.
\<close>

theorem identities_not_always_increasing:
  "\<not> parser_id (fst (combinator_base s_ID_Counter_init))
       < parser_id (fst (combinator_base_copy (fst (combinator_base s_ID_Counter_init))
                           (snd (combinator_base s_ID_Counter_init)))) \<and>
   parser_id (fst (combinator_base s_ID_Counter_init))
     = parser_id (fst (combinator_base_copy (fst (combinator_base s_ID_Counter_init))
                         (snd (combinator_base s_ID_Counter_init)))) \<and>
   \<not> parser_id (fst (combinator_base (- 1)))
       < parser_id (fst (combinator_base (snd (combinator_base (- 1)))))"
  by (simp add: combinator_base_def combinator_base_copy_def parser_id_def
      s_ID_Counter_init_def)

text \<open>
  C8, amended. Of \<open>n\<close> combinators default-constructed one after the other (none of them
  a copy) while the counter does not wrap around, which from the start of the process
  means \<open>n \<le> 2 ^ 64\<close>, every later one has a strictly greater identity than every
  earlier one, and the identities are distinct. Every combinator copy- or
  move-constructed from another one has the identity of that one, and its construction
  leaves the counter as it was.
\<close>

theorem default_constructed_identities_increase:
  "(unat c + n \<le> 2 ^ 64 \<and> i < j \<and> j < n \<longrightarrow>
      parser_id (fst (construct_n n c) ! i) < parser_id (fst (construct_n n c) ! j) \<and>
      parser_id (fst (construct_n n c) ! i) \<noteq> parser_id (fst (construct_n n c) ! j)) \<and>
   parser_id (fst (combinator_base_copy other s_ID_Counter)) = parser_id other \<and>
   snd (combinator_base_copy other s_ID_Counter) = s_ID_Counter"
proof -
  have "parser_id (fst (construct_n n c) ! i) < parser_id (fst (construct_n n c) ! j)"
    if "unat c + n \<le> 2 ^ 64 \<and> i < j \<and> j < n"
    using that counter_no_wrap_less [of c n i j] by (simp add: construct_n_parser_id)
  then show ?thesis
    by (auto simp: combinator_base_copy_keeps_identity)
qed

theorem default_constructed_identities_increase_witness:
  "unat s_ID_Counter_init + 3 \<le> 2 ^ 64 \<and> (0::nat) < 2 \<and> (2::nat) < 3 \<and>
   parser_id (fst (construct_n 3 s_ID_Counter_init) ! 0)
     < parser_id (fst (construct_n 3 s_ID_Counter_init) ! 2) \<and>
   parser_id (fst (construct_n 3 s_ID_Counter_init) ! 0)
     \<noteq> parser_id (fst (construct_n 3 s_ID_Counter_init) ! 2) \<and>
   parser_id (fst (combinator_base_copy \<lparr>m_ID = 7\<rparr> 9)) = parser_id \<lparr>m_ID = 7\<rparr> \<and>
   snd (combinator_base_copy \<lparr>m_ID = 7\<rparr> 9) = 9"
  using default_constructed_identities_increase [of s_ID_Counter_init 3 0 2 "\<lparr>m_ID = 7\<rparr>" 9]
  by (simp add: s_ID_Counter_init_def)

section \<open>Properties of the action combinator\<close>

text \<open>
  C3. If invoking the combinator \<open>c\<close> on a reader yields \<open>Success(value, remaining)\<close>,
  then invoking the action built from \<open>c\<close> and \<open>fn\<close> on that reader yields
  \<open>Success(fn(value), remaining)\<close>: the value goes through \<open>fn\<close>, the remaining count is
  unchanged.
\<close>

theorem action_success_mapped:
  "invoke c r = result_from_success (success v rem) \<Longrightarrow>
   fst (action_invoke invoke (fst (action c fn s_ID_Counter)) r) =
     result_from_success (success (fn v) rem)"
  by (simp add: action_invoke_def action_def combinator_base_def result_from_success_def
      success_def value_rref_def remaining_def)

theorem action_success_mapped_witness:
  "(\<lambda>c r. result_from_success (success ''x'' 2)) \<lparr>m_ID = 0\<rparr> (reader ''xyz'') =
     result_from_success (success ''x'' 2) \<and>
   fst (action_invoke (\<lambda>c r. result_from_success (success ''x'' 2))
          (fst (action \<lparr>m_ID = 0\<rparr>
                  (map (\<lambda>ch. if ch = CHR ''x'' then CHR ''X'' else ch)) 1))
          (reader ''xyz'')) =
     result_from_success (success ''X'' 2)"
  using action_success_mapped
    [of "\<lambda>c r. result_from_success (success ''x'' 2)" "\<lparr>m_ID = 0\<rparr>" "reader ''xyz''"
        "''x''" 2 "map (\<lambda>ch. if ch = CHR ''x'' then CHR ''X'' else ch)" 1]
  by simp

text \<open>
  C4. If invoking the combinator \<open>c\<close> on a reader yields \<open>Failure(furthest)\<close>, then
  invoking the action built from \<open>c\<close> and \<open>fn\<close> on that reader yields that
  \<open>Failure(furthest)\<close> unchanged, and the transform function is not called.
\<close>

theorem action_failure_unchanged:
  "invoke c r = result_from_failure (failure furth) \<Longrightarrow>
   action_invoke invoke (fst (action c fn s_ID_Counter)) r =
     (result_from_failure (failure furth), [])"
  by (simp add: action_invoke_def action_def combinator_base_def result_from_failure_def)

theorem action_failure_unchanged_witness:
  "(\<lambda>c r. result_from_failure (failure 5) :: string result) \<lparr>m_ID = 0\<rparr> (reader ''xyz'') =
     result_from_failure (failure 5) \<and>
   action_invoke (\<lambda>c r. result_from_failure (failure 5) :: string result)
     (fst (action \<lparr>m_ID = 0\<rparr> (map (\<lambda>ch. if ch = CHR ''x'' then CHR ''X'' else ch)) 1))
     (reader ''xyz'') =
     (result_from_failure (failure 5), [])"
  using action_failure_unchanged
    [of "\<lambda>c r. result_from_failure (failure 5) :: string result" "\<lparr>m_ID = 0\<rparr>"
        "reader ''xyz''" 5 "map (\<lambda>ch. if ch = CHR ''x'' then CHR ''X'' else ch)" 1]
  by simp

end
